theory Spec2Isabelle
  imports Complex_Main "HOL-Library.Sublist"
begin

section \<open>Values shared by the components\<close>

text \<open>
  Text is a \<open>string\<close>; a character stands for a code point below 256. Points in time
  (\<open>datetime\<close> values) are integers counting microseconds, the resolution of
  \<open>datetime\<close>; \<open>datetime.utcnow()\<close> and \<open>datetime.now(timezone.utc)\<close> read the
  same clock, which the model receives as an argument.
\<close>

type_synonym time = int

subsection \<open>Operations of \<open>str\<close>\<close>

text \<open>
  \<open>str.isspace\<close>, \<open>str.strip()\<close> and \<open>str.lower()\<close> on code points below 256:
  the white space there is 9 to 13, 28 to 32, 133 and 160; the letters with a lower-case
  form there are \<open>A\<close> to \<open>Z\<close> and 192 to 222 without 215, each 32 below its lower-case
  form.
\<close>

definition py_isspace :: "char \<Rightarrow> bool" where
  "py_isspace c =
     (let n = (of_char c :: nat)
      in (9 \<le> n \<and> n \<le> 13) \<or> (28 \<le> n \<and> n \<le> 32) \<or> n = 133 \<or> n = 160)"

definition strip :: "string \<Rightarrow> string" where
  "strip s = rev (dropWhile py_isspace (rev (dropWhile py_isspace s)))"

definition lower_char :: "char \<Rightarrow> char" where
  "lower_char c =
     (let n = (of_char c :: nat)
      in if (65 \<le> n \<and> n \<le> 90) \<or> (192 \<le> n \<and> n \<le> 222 \<and> n \<noteq> 215)
         then char_of (n + 32) else c)"

definition lower :: "string \<Rightarrow> string" where
  "lower s = map lower_char s"

text \<open>\<open>sub in s\<close>: \<open>sub\<close> occurs in \<open>s\<close> as a contiguous run.\<close>

fun contains :: "string \<Rightarrow> string \<Rightarrow> bool" where
  "contains sub [] = (sub = [])"
| "contains sub (c # cs) = (if prefix sub (c # cs) then True else contains sub cs)"

text \<open>\<open>s.startswith(p)\<close> is \<open>prefix p s\<close>.\<close>

text \<open>
  \<open>s.split(sep)\<close> for a separator that is not empty (the only call uses the code
  fence): the parts between the occurrences of \<open>sep\<close>, found from the left without
  overlap. The second argument collects the current part, reversed.
\<close>

function split_from :: "string \<Rightarrow> string \<Rightarrow> string \<Rightarrow> string list" where
  "split_from sep acc [] = [rev acc]"
| "split_from sep acc (c # cs) =
     (if sep \<noteq> [] \<and> prefix sep (c # cs)
      then rev acc # split_from sep [] (drop (length sep) (c # cs))
      else split_from sep (c # acc) cs)"
  by pat_completeness auto
termination
  by (relation "measure (\<lambda>(sep, acc, s). length s)") (auto simp: neq_Nil_conv)

definition split :: "string \<Rightarrow> string \<Rightarrow> string list" where
  "split s sep = split_from sep [] s"

text \<open>\<open>s.find(c)\<close> and \<open>s.rfind(c)\<close> for one character; \<open>None\<close> is Python's \<open>-1\<close>.\<close>

fun find_ch :: "char \<Rightarrow> string \<Rightarrow> nat option" where
  "find_ch c [] = None"
| "find_ch c (x # xs) =
     (if x = c then Some 0 else (case find_ch c xs of None \<Rightarrow> None | Some i \<Rightarrow> Some (Suc i)))"

definition rfind_ch :: "char \<Rightarrow> string \<Rightarrow> nat option" where
  "rfind_ch c s =
     (case find_ch c (rev s) of None \<Rightarrow> None | Some i \<Rightarrow> Some (length s - 1 - i))"

text \<open>\<open>s[i:j]\<close> for indices that are not negative.\<close>

definition slice :: "'a list \<Rightarrow> nat \<Rightarrow> nat \<Rightarrow> 'a list" where
  "slice s i j = take (j - i) (drop i s)"

subsection \<open>Decoded JSON and exceptions\<close>

text \<open>
  What \<open>json.loads\<close> returns: \<open>None\<close>, a \<open>bool\<close>, an \<open>int\<close>, a \<open>float\<close> (the
  real number it denotes; \<open>JNonFinite\<close> is NaN or an infinity, which the decoder
  accepts too), a \<open>str\<close>, a \<open>list\<close>, or a \<open>dict\<close> with its items in order.
\<close>

datatype json =
    JNull
  | JBool bool
  | JInt int
  | JFloat real
  | JNonFinite
  | JStr string
  | JArr "json list"
  | JObj "(string \<times> json) list"

text \<open>
  Exceptions. \<open>Exception msg\<close> is one raised by a library call to the outside (network,
  provider), \<open>msg\<close> being its \<open>str()\<close>; the others are raised by the interpreter or by
  this program.
\<close>

datatype exn =
    Exception string
  | JSONDecodeError
  | TypeError
  | AttributeError
  | KeyError
  | ValueError
  | OverflowError
  | AnalysisError

section \<open>The content filter: \<open>src/processing/filter.py\<close> and step 3 of \<open>process_cycle\<close>\<close>

text \<open>
  \<open>ParsedMessage\<close> of \<open>src/telegram/userbot.py\<close>; its field \<open>text\<close> is
  \<open>msg_text\<close> here.
\<close>

record ParsedMessage =
  message_id :: int
  chat_id :: int
  chat_title :: "string option"
  chat_username :: "string option"
  user_id :: int
  username :: "string option"
  first_name :: "string option"
  msg_text :: string
  date :: time
  topic_id :: "int option"
  reply_to_text :: "string option"

text \<open>
  The inner loop of \<open>filter_messages\<close>: the exclusion words are tried in order and the
  first one found in the lower-cased text ends the loop.
\<close>

fun excluded :: "string list \<Rightarrow> string \<Rightarrow> bool" where
  "excluded [] text_lower = False"
| "excluded (word # ws) text_lower =
     (if contains word text_lower then True else excluded ws text_lower)"

text \<open>\<open>filter_messages\<close>; the first argument is \<open>config.exclude_words\<close>.\<close>

definition filter_messages :: "string list \<Rightarrow> ParsedMessage list \<Rightarrow> ParsedMessage list" where
  "filter_messages exclude_words messages =
     filter (\<lambda>msg. \<not> excluded exclude_words (lower (msg_text msg))) messages"

text \<open>
  The de-duplication loop of \<open>process_cycle\<close> (``Deduplicate by exact text match''):
  \<open>seen_texts\<close> is the set of texts kept so far.
\<close>

fun dedup_from :: "string set \<Rightarrow> ParsedMessage list \<Rightarrow> ParsedMessage list" where
  "dedup_from seen_texts [] = []"
| "dedup_from seen_texts (msg # rest) =
     (if msg_text msg \<notin> seen_texts
      then msg # dedup_from (insert (msg_text msg) seen_texts) rest
      else dedup_from seen_texts rest)"

definition deduplicate :: "ParsedMessage list \<Rightarrow> ParsedMessage list" where
  "deduplicate filtered = dedup_from {} filtered"

definition content_filter :: "string list \<Rightarrow> ParsedMessage list \<Rightarrow> ParsedMessage list" where
  "content_filter exclude_words all_messages =
     deduplicate (filter_messages exclude_words all_messages)"

text \<open>An item with the given ordinal, text and date in chat 1, for the concrete examples.\<close>

definition item :: "int \<Rightarrow> string \<Rightarrow> time \<Rightarrow> ParsedMessage" where
  "item n t d =
     \<lparr>message_id = n, chat_id = 1, chat_title = None, chat_username = None, user_id = 7,
      username = None, first_name = None, msg_text = t, date = d, topic_id = None,
      reply_to_text = None\<rparr>"

section \<open>The classification batcher: \<open>src/processing/analyzer.py\<close>\<close>

subsection \<open>\<open>parse_response\<close>\<close>

text \<open>
  The loop over the parts between code fences: the first part that, stripped and without
  a leading \<open>json\<close>, starts with \<open>[\<close> is taken, and the loop ends there.
\<close>

fun fenced_array :: "string list \<Rightarrow> string option" where
  "fenced_array [] = None"
| "fenced_array (part # parts) =
     (let part1 = strip part;
          part2 = (if prefix ''json'' part1 then strip (drop 4 part1) else part1)
      in if prefix ''['' part2 then Some part2 else fenced_array parts)"

text \<open>
  The text that \<open>parse_response\<close> hands to \<open>json.loads\<close>, for a response that is not
  empty once stripped.
\<close>

definition json_candidate :: "string \<Rightarrow> string" where
  "json_candidate text0 =
     (let text1 = (if contains ''```'' text0
                   then (case fenced_array (split text0 ''```'') of
                           Some part \<Rightarrow> part | None \<Rightarrow> text0)
                   else text0)
      in case (find_ch CHR ''['' text1, rfind_ch CHR '']'' text1) of
           (Some start, Some end) \<Rightarrow>
             if end > start then slice text1 start (end + 1) else text1
         | _ \<Rightarrow> text1)"

text \<open>
  \<open>parse_response\<close>. The decoder \<open>json.loads\<close> of the standard library is the first
  argument: it returns the decoded value or raises. Only its \<open>JSONDecodeError\<close> is
  caught.
\<close>

definition parse_response :: "(string \<Rightarrow> exn + json) \<Rightarrow> string \<Rightarrow> exn + json" where
  "parse_response loads result_text =
     (let text0 = strip result_text
      in if text0 = [] then Inr (JArr [])
         else (case loads (json_candidate text0) of
                 Inl JSONDecodeError \<Rightarrow> Inr (JArr [])
               | Inl e \<Rightarrow> Inl e
               | Inr v \<Rightarrow> Inr v))"

subsection \<open>\<open>analyze_batch\<close>\<close>

text \<open>
  A verdict \<open>(is_lead, reason, confidence, lead_type)\<close>; the last three are whatever the
  response holds under \<open>reason\<close>, \<open>confidence\<close> and \<open>type\<close>.
\<close>

type_synonym verdict = "bool \<times> json \<times> json \<times> json"

text \<open>
  The result dictionary, as far as a lookup with an integer index can see it: the
  orchestrator reads it with \<open>analysis_results.get(i)\<close> for integers \<open>i\<close> only and the
  annotated key type is \<open>int\<close>. A key that equals no integer in Python (a string,
  \<open>None\<close>, a float with a fractional part) is stored but never found, so it is left out
  of the map.
\<close>

type_synonym verdicts = "int \<rightharpoonup> verdict"

text \<open>\<open>for r in results\<close>: the elements that iterating over a decoded value yields.\<close>

fun py_iter :: "json \<Rightarrow> exn + json list" where
  "py_iter (JArr xs) = Inr xs"
| "py_iter (JObj kvs) = Inr (map (\<lambda>kv. JStr (fst kv)) kvs)"
| "py_iter (JStr s) = Inr (map (\<lambda>c. JStr [c]) s)"
| "py_iter v = Inl TypeError"

text \<open>\<open>r.get(key, default)\<close>: only a \<open>dict\<close> has the method.\<close>

fun py_get :: "json \<Rightarrow> string \<Rightarrow> json \<Rightarrow> exn + json" where
  "py_get (JObj kvs) key dflt = Inr (case map_of kvs key of Some v \<Rightarrow> v | None \<Rightarrow> dflt)"
| "py_get v key dflt = Inl AttributeError"

text \<open>
  \<open>log_lead_found\<close> formats the confidence with \<open>:.0%\<close>, which works for numbers and
  raises for everything else. An \<open>int\<close> is converted to a \<open>float\<close> first, which raises
  \<open>OverflowError\<close> when it rounds to \<open>2 ^ 1024\<close> or beyond.
\<close>

fun percent_format :: "json \<Rightarrow> exn option" where
  "percent_format (JInt i) =
     (if \<bar>i\<bar> < 2 ^ 1024 - 2 ^ 970 then None else Some OverflowError)"
| "percent_format (JFloat x) = None"
| "percent_format JNonFinite = None"
| "percent_format (JBool b) = None"
| "percent_format (JStr s) = Some ValueError"
| "percent_format v = Some TypeError"

text \<open>The logging loop over the results (lines 131 to 133); \<open>None\<close> when nothing raises.\<close>

fun log_leads :: "json list \<Rightarrow> exn option" where
  "log_leads [] = None"
| "log_leads (r # rs) =
     (case py_get r ''confidence'' (JFloat (1/2)) of
        Inl e \<Rightarrow> Some e
      | Inr confidence \<Rightarrow>
          (case percent_format confidence of Some e \<Rightarrow> Some e | None \<Rightarrow> log_leads rs))"

text \<open>
  The integer a dictionary key equals, if any: \<open>True == 1\<close>, \<open>False == 0\<close> and
  \<open>1.0 == 1\<close> in Python. A \<open>list\<close> or \<open>dict\<close> cannot be a key (\<open>TypeError\<close>).
\<close>

fun key_index :: "json \<Rightarrow> exn + int option" where
  "key_index (JInt i) = Inr (Some i)"
| "key_index (JBool b) = Inr (Some (if b then 1 else 0))"
| "key_index (JFloat x) = Inr (if x = of_int \<lfloor>x\<rfloor> then Some \<lfloor>x\<rfloor> else None)"
| "key_index (JArr xs) = Inl TypeError"
| "key_index (JObj kvs) = Inl TypeError"
| "key_index v = Inr None"

text \<open>\<open>r["id"]\<close> on a \<open>dict\<close>.\<close>

fun py_item :: "json \<Rightarrow> string \<Rightarrow> exn + json" where
  "py_item (JObj kvs) key = (case map_of kvs key of Some v \<Rightarrow> Inr v | None \<Rightarrow> Inl KeyError)"
| "py_item v key = Inl TypeError"

text \<open>
  The dictionary comprehension (lines 136 to 139), one element after the other, a later
  entry replacing an earlier one under the same key. Every result is stored with
  \<open>is_lead = True\<close>.
\<close>

fun build_verdicts :: "verdicts \<Rightarrow> json list \<Rightarrow> exn + verdicts" where
  "build_verdicts acc [] = Inr acc"
| "build_verdicts acc (r # rs) =
     (case py_item r ''id'' of
        Inl e \<Rightarrow> Inl e
      | Inr k \<Rightarrow>
          (case (py_get r ''reason'' (JStr []), py_get r ''confidence'' (JFloat (1/2)),
                 py_get r ''type'' (JStr ''property'')) of
             (Inr reason, Inr confidence, Inr lead_type) \<Rightarrow>
               (case key_index k of
                  Inl e \<Rightarrow> Inl e
                | Inr None \<Rightarrow> build_verdicts acc rs
                | Inr (Some i) \<Rightarrow>
                    build_verdicts (acc(i \<mapsto> (True, reason, confidence, lead_type))) rs)
           | _ \<Rightarrow> Inl AttributeError))"

text \<open>What the body of the \<open>try\<close> does with the decoded results.\<close>

definition results_to_verdicts :: "json \<Rightarrow> exn + verdicts" where
  "results_to_verdicts results =
     (case py_iter results of
        Inl e \<Rightarrow> Inl e
      | Inr rs \<Rightarrow> (case log_leads rs of Some e \<Rightarrow> Inl e | None \<Rightarrow> build_verdicts Map.empty rs))"

text \<open>
  One pass through the body of the \<open>try\<close>, given the outcome of \<open>call_llm(prompt)\<close>:
  the text it returns or the exception it raises.
\<close>

definition attempt_once :: "(string \<Rightarrow> exn + json) \<Rightarrow> exn + string \<Rightarrow> exn + verdicts" where
  "attempt_once loads outcome =
     (case outcome of
        Inl e \<Rightarrow> Inl e
      | Inr result_text \<Rightarrow>
          (case parse_response loads result_text of
             Inl e \<Rightarrow> Inl e
           | Inr results \<Rightarrow> results_to_verdicts results))"

text \<open>
  The rate-limit test on \<open>str(e)\<close>. The messages of the exceptions that the interpreter
  raises in the body of the \<open>try\<close> hold none of the three marks, so only an exception of
  the provider call can pass the test.
\<close>

definition is_rate_limit :: "exn \<Rightarrow> bool" where
  "is_rate_limit e =
     (case e of
        Exception error_str \<Rightarrow>
          contains ''429'' error_str \<or> contains ''quota'' (lower error_str)
          \<or> contains ''rate'' (lower error_str)
      | _ \<Rightarrow> False)"

text \<open>
  The retry loop \<open>for attempt in range(max_retries)\<close>, over the attempts still to make.
  \<open>call attempt\<close> is the outcome of the provider call of that attempt. Waiting between
  attempts takes time and changes nothing else, so it is not modelled. Leaving the loop
  without a result raises ``Max retries exceeded''.
\<close>

fun analyze_attempts ::
  "(string \<Rightarrow> exn + json) \<Rightarrow> (nat \<Rightarrow> exn + string) \<Rightarrow> nat \<Rightarrow> nat list \<Rightarrow> exn + verdicts" where
  "analyze_attempts loads call max_retries [] = Inl AnalysisError"
| "analyze_attempts loads call max_retries (attempt # rest) =
     (case attempt_once loads (call attempt) of
        Inr d \<Rightarrow> Inr d
      | Inl e \<Rightarrow>
          if is_rate_limit e \<and> attempt < max_retries - 1
          then analyze_attempts loads call max_retries rest
          else Inl AnalysisError)"

text \<open>
  An entry of the list to analyze: \<open>(idx, user_id, text)\<close>, or \<open>(idx, text)\<close> when the
  middle component is \<open>None\<close>.
\<close>

type_synonym entry = "int \<times> int option \<times> string"

text \<open>
  \<open>analyze_batch\<close>. The prompt is a function of the batch alone (its formatted lines
  put into the template \<open>BATCH_PROMPT\<close>, which is not part of the sources), so the
  provider is modelled as a function \<open>llm\<close> of the batch and of the attempt number. The
  result is the dictionary of leads or the \<open>AnalysisError\<close> raised.
\<close>

definition analyze_batch ::
  "(string \<Rightarrow> exn + json) \<Rightarrow> (entry list \<Rightarrow> nat \<Rightarrow> exn + string) \<Rightarrow> entry list \<Rightarrow> nat
   \<Rightarrow> exn + verdicts" where
  "analyze_batch loads llm messages max_retries =
     (if messages = [] then Inr Map.empty
      else analyze_attempts loads (llm messages) max_retries [0..<max_retries])"

subsection \<open>\<open>analyze_messages_batch\<close>\<close>

text \<open>
  \<open>[xs[i:i + n] for i in range(0, len(xs), n)]\<close> for \<open>n > 0\<close>: consecutive pieces of at
  most \<open>n\<close> elements.
\<close>

function chunks :: "nat \<Rightarrow> 'a list \<Rightarrow> 'a list list" where
  "chunks n xs = (if n = 0 \<or> xs = [] then [] else take n xs # chunks n (drop n xs))"
  by pat_completeness auto
termination
  by (relation "measure (\<lambda>(n, xs). length xs)") auto

text \<open>
  The loop over the results of one group (lines 205 to 211): a dictionary is merged into
  \<open>all_results\<close>, an exception is logged and nothing else.
\<close>

fun merge_results :: "verdicts \<Rightarrow> (exn + verdicts) list \<Rightarrow> verdicts" where
  "merge_results all_results [] = all_results"
| "merge_results all_results (Inr d # rs) = merge_results (all_results ++ d) rs"
| "merge_results all_results (Inl e # rs) = merge_results all_results rs"

text \<open>
  The loop over the groups: the batches of a group are analyzed (\<open>asyncio.gather\<close> with
  \<open>return_exceptions=True\<close> returns each outcome in the order of the batches) and their
  results merged before the next group starts. \<open>analyze_batch\<close> is called with its
  default of three attempts.
\<close>

fun process_groups ::
  "(string \<Rightarrow> exn + json) \<Rightarrow> (entry list \<Rightarrow> nat \<Rightarrow> exn + string) \<Rightarrow> verdicts
   \<Rightarrow> entry list list list \<Rightarrow> verdicts" where
  "process_groups loads llm all_results [] = all_results"
| "process_groups loads llm all_results (grp # groups) =
     process_groups loads llm
       (merge_results all_results (map (\<lambda>batch. analyze_batch loads llm batch 3) grp)) groups"

text \<open>
  \<open>analyze_messages_batch\<close>, with \<open>batch_size\<close> and \<open>max_parallel\<close> not negative. A step
  of zero makes \<open>range\<close> raise \<open>ValueError\<close>. The second component of the result is the
  success flag.
\<close>

definition analyze_messages_batch ::
  "(string \<Rightarrow> exn + json) \<Rightarrow> (entry list \<Rightarrow> nat \<Rightarrow> exn + string) \<Rightarrow> entry list \<Rightarrow> nat \<Rightarrow> nat
   \<Rightarrow> exn + (verdicts \<times> bool)" where
  "analyze_messages_batch loads llm texts batch_size max_parallel =
     (if batch_size = 0 \<or> max_parallel = 0 then Inl ValueError
      else Inr (process_groups loads llm Map.empty (chunks max_parallel (chunks batch_size texts)),
                True))"

text \<open>
  The integer indices that a decoded result list names: the \<open>id\<close> of each result, where
  it is one and equals an integer.
\<close>

definition result_indices :: "json list \<Rightarrow> int list" where
  "result_indices rs =
     List.map_filter
       (\<lambda>r. case py_item r ''id'' of
               Inr k \<Rightarrow> (case key_index k of Inr (Some i) \<Rightarrow> Some i | _ \<Rightarrow> None)
             | Inl e \<Rightarrow> None) rs"

section \<open>The source adapter: \<open>UserBot.get_new_messages\<close> in \<open>src/telegram/userbot.py\<close>\<close>

text \<open>
  A chat as the library hands it over (\<open>Channel\<close> or \<open>Chat\<close>), with the attributes the
  program reads.
\<close>

record entity =
  ent_id :: int
  ent_title :: "string option"
  ent_username :: "string option"
  ent_forum :: bool

text \<open>
  What \<open>get_folder_chats\<close> returns: peer references with a \<open>channel_id\<close> or a
  \<open>chat_id\<close> (personal chats are skipped there), or chat entities.
\<close>

datatype peer = PeerChannel int | PeerChat int | Entity entity

text \<open>The chat id both \<open>process_cycle\<close> and \<open>get_new_messages\<close> take from a peer.\<close>

fun peer_chat_id :: "peer \<Rightarrow> int" where
  "peer_chat_id (PeerChannel channel_id) = channel_id"
| "peer_chat_id (PeerChat cid) = cid"
| "peer_chat_id (Entity e) = ent_id e"

text \<open>A message of the library, with the attributes the program reads.\<close>

record reply_header =
  reply_to_top_id :: "int option"
  reply_to_msg_id :: "int option"

record tg_sender =
  snd_id :: int
  snd_username :: "string option"
  snd_first_name :: "string option"

record tg_message =
  tg_id :: int
  tg_text :: "string option"
  tg_sender_id :: "int option"
  tg_sender :: "tg_sender option"
  tg_date :: time
  tg_reply_to :: "reply_header option"

text \<open>
  The outside world of one cycle.
  \<^item> \<open>folder_chats\<close>: what \<open>get_folder_chats(config.folder_name)\<close> returns or raises;
  \<^item> \<open>get_entity\<close>: what \<open>client.get_entity(peer)\<close> returns or raises;
  \<^item> \<open>history\<close>: the messages of a chat, newest first;
  \<^item> \<open>iter_fails_after\<close>: \<open>Some k\<close> when iterating over the chat raises after \<open>k\<close>
    messages;
  \<^item> \<open>get_messages\<close>: the message \<open>client.get_messages(entity, ids=n)\<close> returns, \<open>None\<close>
    when it returns none or raises;
  \<^item> \<open>clock\<close>: the clock, read as one value for the whole cycle;
  \<^item> \<open>exclude_words\<close>: \<open>config.exclude_words\<close>;
  \<^item> \<open>decoder\<close> and \<open>provider\<close>: \<open>json.loads\<close> and the provider call, as in the
    batcher.
\<close>

record env =
  folder_chats :: "exn + peer list"
  get_entity :: "peer \<Rightarrow> exn + entity"
  history :: "entity \<Rightarrow> tg_message list"
  iter_fails_after :: "entity \<Rightarrow> nat option"
  get_messages :: "entity \<Rightarrow> int \<Rightarrow> tg_message option"
  clock :: time
  exclude_words :: "string list"
  decoder :: "string \<Rightarrow> exn + json"
  provider :: "entry list \<Rightarrow> nat \<Rightarrow> exn + string"

text \<open>
  \<open>client.iter_messages(entity, min_id=m, limit=n)\<close> of the library: the messages with
  an id above \<open>m\<close>, newest first, at most \<open>n\<close> of them.
\<close>

definition iter_messages :: "tg_message list \<Rightarrow> int \<Rightarrow> nat \<Rightarrow> tg_message list" where
  "iter_messages hist min_id limit = take limit (filter (\<lambda>m. tg_id m > min_id) hist)"

text \<open>\<open>a or b\<close> on optional integers: \<open>None\<close> and \<open>0\<close> are false.\<close>

definition py_or :: "int option \<Rightarrow> int option \<Rightarrow> int option" where
  "py_or a b = (case a of Some x \<Rightarrow> if x \<noteq> 0 then Some x else b | None \<Rightarrow> b)"

text \<open>
  The body of the loop over the messages of a chat: \<open>None\<close> for a message that is skipped
  (no text, no sender id, no sender).
\<close>

definition parse_message :: "env \<Rightarrow> int \<Rightarrow> entity \<Rightarrow> tg_message \<Rightarrow> ParsedMessage option" where
  "parse_message env cid ent msg =
     (if tg_text msg = None \<or> tg_text msg = Some [] \<or> tg_sender_id msg = None
         \<or> tg_sender_id msg = Some 0
      then None
      else (case tg_sender msg of
              None \<Rightarrow> None
            | Some sender \<Rightarrow>
                Some \<lparr>message_id = tg_id msg, chat_id = cid, chat_title = ent_title ent,
                      chat_username = ent_username ent, user_id = snd_id sender,
                      username = snd_username sender, first_name = snd_first_name sender,
                      msg_text = the (tg_text msg), date = tg_date msg,
                      topic_id =
                        (case tg_reply_to msg of
                           Some r \<Rightarrow>
                             if ent_forum ent then py_or (reply_to_top_id r) (reply_to_msg_id r)
                             else None
                         | None \<Rightarrow> None),
                      reply_to_text =
                        (case tg_reply_to msg of
                           Some r \<Rightarrow>
                             if ent_forum ent then None
                             else (case reply_to_msg_id r of
                                     None \<Rightarrow> None
                                   | Some n \<Rightarrow>
                                       if n = 0 then None
                                       else (case get_messages env ent n of
                                               None \<Rightarrow> None
                                             | Some reply_msg \<Rightarrow>
                                                 (case tg_text reply_msg of
                                                    None \<Rightarrow> None
                                                  | Some t \<Rightarrow>
                                                      if t = [] then None else Some (take 200 t))))
                         | None \<Rightarrow> None)\<rparr>))"

text \<open>
  \<open>get_new_messages(peer, min_id)\<close> with the limit of 100 messages per call. An
  exception while the entity is resolved or the chat is read is caught: the messages
  parsed up to that point are returned.
\<close>

definition resolve_entity :: "env \<Rightarrow> peer \<Rightarrow> exn + entity" where
  "resolve_entity env p = (case p of Entity e \<Rightarrow> Inr e | _ \<Rightarrow> get_entity env p)"

definition get_new_messages :: "env \<Rightarrow> peer \<Rightarrow> int option \<Rightarrow> ParsedMessage list" where
  "get_new_messages env p min_id =
     (case resolve_entity env p of
        Inl e \<Rightarrow> []
      | Inr ent \<Rightarrow>
          (let yielded = iter_messages (history env ent) (case min_id of Some m \<Rightarrow> m | None \<Rightarrow> 0) 100;
               seen = (case iter_fails_after env ent of Some k \<Rightarrow> take k yielded | None \<Rightarrow> yielded)
           in List.map_filter (parse_message env (peer_chat_id p) ent) seen))"

section \<open>Persistence: \<open>src/db/models.py\<close> and \<open>src/db/repository.py\<close>\<close>

text \<open>
  Table \<open>chat_state\<close>: primary key \<open>chat_id\<close>, so the table is a map from the chat
  id to the rest of the row.
\<close>

record ChatState =
  last_message_id :: int
  updated_at :: time

text \<open>
  Tables \<open>processed_users\<close> and \<open>messages\<close>, in insertion order. The primary key
  \<open>id\<close> is assigned by the database: rows are never deleted, so a new row gets the
  number of rows plus one.
\<close>

record ProcessedUser =
  pu_id :: nat
  telegram_user_id :: int
  pu_username :: "string option"
  pu_first_name :: "string option"
  pu_created_at :: time

record Message =
  m_id :: nat
  telegram_message_id :: int
  m_chat_id :: int
  m_chat_title :: "string option"
  m_chat_username :: "string option"
  m_user_id :: nat
  m_text :: string
  is_lead :: "bool option"
  confidence :: "json option"
  reason :: "json option"
  created_at :: time
  analyzed_at :: "time option"
  source :: string

text \<open>
  Table \<open>facebook_processed_posts\<close>, the processed-item records: primary key
  \<open>post_id\<close>, mapped to the \<open>group_id\<close>. Only the Facebook cycle, which is not
  modelled, writes it.
\<close>

text \<open>
  The database. Every method of \<open>Repository\<close> commits before it returns, so the
  database is the only state; the session object and its closing are not modelled, and
  neither is a failure of the database itself.
\<close>

record db =
  chat_state :: "int \<rightharpoonup> ChatState"
  processed_users :: "ProcessedUser list"
  messages :: "Message list"
  facebook_processed_posts :: "string \<rightharpoonup> string"

definition get_or_create_user ::
  "db \<Rightarrow> int \<Rightarrow> string option \<Rightarrow> string option \<Rightarrow> time \<Rightarrow> db \<times> ProcessedUser" where
  "get_or_create_user d tuid uname fname now =
     (case find (\<lambda>u. telegram_user_id u = tuid) (processed_users d) of
        Some user \<Rightarrow> (d, user)
      | None \<Rightarrow>
          (let user = \<lparr>pu_id = length (processed_users d) + 1, telegram_user_id = tuid,
                       pu_username = uname, pu_first_name = fname, pu_created_at = now\<rparr>
           in (d\<lparr>processed_users := processed_users d @ [user]\<rparr>, user)))"

text \<open>\<open>save_message\<close> for a Telegram message (\<open>source\<close> has its default).\<close>

definition save_message :: "db \<Rightarrow> ParsedMessage \<Rightarrow> ProcessedUser \<Rightarrow> db \<times> Message" where
  "save_message d msg user =
     (let row = \<lparr>m_id = length (messages d) + 1, telegram_message_id = message_id msg,
                  m_chat_id = chat_id msg, m_chat_title = chat_title msg,
                  m_chat_username = chat_username msg, m_user_id = pu_id user,
                  m_text = msg_text msg, is_lead = None, confidence = None, reason = None,
                  created_at = date msg, analyzed_at = None, source = ''telegram''\<rparr>
      in (d\<lparr>messages := messages d @ [row]\<rparr>, row))"

definition update_message_lead_status ::
  "db \<Rightarrow> nat \<Rightarrow> bool \<Rightarrow> json \<Rightarrow> json \<Rightarrow> time \<Rightarrow> db" where
  "update_message_lead_status d mid lead conf rsn now =
     d\<lparr>messages :=
         map (\<lambda>row. if m_id row = mid
                    then row\<lparr>is_lead := Some lead, confidence := Some conf, reason := Some rsn,
                              analyzed_at := Some now\<rparr>
                    else row)
             (messages d)\<rparr>"

definition get_last_message_id :: "db \<Rightarrow> int \<Rightarrow> int option" where
  "get_last_message_id d cid =
     (case chat_state d cid of Some state \<Rightarrow> Some (last_message_id state) | None \<Rightarrow> None)"

text \<open>
  \<open>update_last_message_id\<close>: the row of the chat is overwritten when it exists and
  inserted otherwise. The last argument is what \<open>datetime.utcnow()\<close> returns during the
  call.
\<close>

definition update_last_message_id :: "db \<Rightarrow> int \<Rightarrow> int \<Rightarrow> time \<Rightarrow> db" where
  "update_last_message_id d cid mid now =
     (case chat_state d cid of
        Some state \<Rightarrow>
          d\<lparr>chat_state := (chat_state d)(cid \<mapsto> state\<lparr>last_message_id := mid, updated_at := now\<rparr>)\<rparr>
      | None \<Rightarrow>
          d\<lparr>chat_state := (chat_state d)(cid \<mapsto> \<lparr>last_message_id = mid, updated_at = now\<rparr>)\<rparr>)"

definition empty_db :: db where
  "empty_db =
     \<lparr>chat_state = Map.empty, processed_users = [], messages = [],
      facebook_processed_posts = Map.empty\<rparr>"

text \<open>
  The attributes of a \<open>Repository\<close> object: the attribute set by \<open>__init__\<close> and the
  methods the class defines. Reading any other attribute raises \<open>AttributeError\<close>.
\<close>

definition Repository_attrs :: "string list" where
  "Repository_attrs =
     [''session'', ''__init__'', ''close'', ''get_or_create_user'', ''is_user_processed'',
      ''save_message'', ''update_message_lead_status'', ''get_last_message_id'',
      ''update_last_message_id'', ''get_facebook_group_state'', ''update_facebook_group_state'',
      ''is_facebook_post_processed'', ''mark_facebook_post_processed'',
      ''mark_facebook_posts_batch'']"

text \<open>
  \<open>repo.name()\<close>, a call without arguments: \<open>close\<close> returns \<open>None\<close>, the other
  methods miss their arguments and \<open>session\<close> is not callable (\<open>TypeError\<close>), a name
  that is no attribute raises \<open>AttributeError\<close>. None of these changes the database.
\<close>

definition Repository_call0 :: "string \<Rightarrow> exn + int option" where
  "Repository_call0 name =
     (if name = ''close'' then Inr None
      else if name \<in> set Repository_attrs then Inl TypeError
      else Inl AttributeError)"

section \<open>The cycle orchestrator: \<open>process_cycle\<close> and the reset callback in \<open>src/main.py\<close>\<close>

subsection \<open>The notifier, as far as the cycle uses it\<close>

text \<open>
  The attributes of a \<open>NotificationBot\<close> object (\<open>src/telegram/bot.py\<close>): those set by
  \<open>__init__\<close> and the methods the class defines.
\<close>

definition NotificationBot_attrs :: "string list" where
  "NotificationBot_attrs =
     [''app'', ''bot'', ''chat_id'', ''_process_callback'', ''_facebook_callback'',
      ''_reset_callback'', ''is_paused'', ''is_facebook_paused'', ''last_scan_time'',
      ''last_facebook_scan_time'', ''__init__'', ''set_process_callback'',
      ''set_facebook_callback'', ''set_reset_callback'', ''start'', ''stop'', ''_handle_start'',
      ''_handle_scan'', ''_handle_scanfb'', ''_handle_callback'', ''_handle_pause'',
      ''_handle_pausefb'', ''_handle_resume'', ''_handle_resumefb'', ''_handle_status'',
      ''_handle_reset'', ''_handle_help'', ''send_lead'', ''send_stats'', ''send_facebook_lead'',
      ''send_facebook_leads_batch'']"

text \<open>
  \<open>bot.name(leads_list, source="telegram")\<close>: no attribute of the class accepts this
  call (a method with other parameters or a value that is not callable raises
  \<open>TypeError\<close>), and a name that is no attribute raises \<open>AttributeError\<close>.
\<close>

definition NotificationBot_call_leads :: "string \<Rightarrow> exn" where
  "NotificationBot_call_leads name =
     (if name \<in> set NotificationBot_attrs then TypeError else AttributeError)"

text \<open>
  A call of \<open>send_stats(total, filtered, analyzed, leads)\<close>. The method catches a
  failure of the delivery itself, so a call never raises.
\<close>

type_synonym stats = "nat \<times> nat \<times> nat \<times> nat"

subsection \<open>Step 2: collecting the new messages\<close>

text \<open>\<open>max\<close> of a sequence that is not empty, given as its first element and the rest.\<close>

fun max_from :: "int \<Rightarrow> int list \<Rightarrow> int" where
  "max_from x [] = x"
| "max_from x (y # ys) = max_from (max x y) ys"

text \<open>24 hours, in microseconds.\<close>

definition day :: time where
  "day = 86400000000"

text \<open>
  The body of the loop over the peers: the messages the chat adds to \<open>all_messages\<close> and
  the entry it adds to \<open>chats_to_update\<close>.
\<close>

definition fetch_chat :: "env \<Rightarrow> db \<Rightarrow> peer \<Rightarrow> ParsedMessage list \<times> (int \<times> int) list" where
  "fetch_chat env d p =
     (let cid = peer_chat_id p
      in case get_last_message_id d cid of
           None \<Rightarrow>
             (case get_new_messages env p (Some 0) of
                [] \<Rightarrow> ([], [])
              | m # ms \<Rightarrow>
                  (filter (\<lambda>x. date x > clock env - day) (m # ms),
                   [(cid, max_from (message_id m) (map message_id ms))]))
         | Some min_id \<Rightarrow>
             (case get_new_messages env p (Some min_id) of
                [] \<Rightarrow> ([], [])
              | m # ms \<Rightarrow> (m # ms, [(cid, max_from (message_id m) (map message_id ms))])))"


fun collect :: "env \<Rightarrow> db \<Rightarrow> peer list \<Rightarrow> ParsedMessage list \<times> (int \<times> int) list" where
  "collect env d [] = ([], [])"
| "collect env d (p # peers) =
     (let (msgs, upd) = fetch_chat env d p;
          (all_messages, chats_to_update) = collect env d peers
      in (msgs @ all_messages, upd @ chats_to_update))"

subsection \<open>Steps 3 and 4: saving the filtered messages, building the entries\<close>

fun save_all ::
  "time \<Rightarrow> db \<Rightarrow> ParsedMessage list \<Rightarrow> db \<times> (ParsedMessage \<times> Message \<times> ProcessedUser) list" where
  "save_all t d [] = (d, [])"
| "save_all t d (msg # rest) =
     (let (d1, user) = get_or_create_user d (user_id msg) (username msg) (first_name msg) t;
          (d2, db_msg) = save_message d1 msg user;
          (d3, saved) = save_all t d2 rest
      in (d3, (msg, db_msg, user) # saved))"

text \<open>
  The arrow that marks a reply (U+21A9) lies beyond the code points of the model; it
  stands here as its three UTF-8 bytes.
\<close>

definition reply_mark :: string where
  "reply_mark = [CHR 0xE2, CHR 0x86, CHR 0xA9]"

definition format_text_for_analysis :: "ParsedMessage \<Rightarrow> string" where
  "format_text_for_analysis msg =
     (case reply_to_text msg of
        None \<Rightarrow> msg_text msg
      | Some r \<Rightarrow>
          if r = [] then msg_text msg
          else ''('' @ reply_mark @ '' '' @ [CHR 0x22] @ r @ [CHR 0x22] @ '') '' @ msg_text msg)"

definition texts_to_analyze ::
  "(ParsedMessage \<times> Message \<times> ProcessedUser) list \<Rightarrow> entry list" where
  "texts_to_analyze filtered_messages =
     map (\<lambda>(i, (msg, db_msg, user)). (int i, Some (user_id msg), format_text_for_analysis msg))
         (enumerate 0 filtered_messages)"

subsection \<open>Steps 5 to 7: results, leads, watermarks, statistics\<close>

text \<open>
  An entry of \<open>leads_list\<close>: the message and the verdict. The contact and the link are
  strings built from the message for the notifier and are not modelled.
\<close>

record lead =
  lead_msg :: ParsedMessage
  lead_confidence :: json
  lead_reason :: json
  lead_type :: json

text \<open>
  The loop of step 5 over \<open>enumerate(filtered_messages)\<close>: the database after it,
  \<open>leads_list\<close> and \<open>leads_found\<close>. An index without a result is passed over.
\<close>

fun process_results ::
  "time \<Rightarrow> verdicts \<Rightarrow> db \<Rightarrow> (nat \<times> ParsedMessage \<times> Message \<times> ProcessedUser) list
   \<Rightarrow> db \<times> lead list \<times> nat" where
  "process_results t analysis_results d [] = (d, [], 0)"
| "process_results t analysis_results d ((i, (msg, db_msg, user)) # rest) =
     (case analysis_results (int i) of
        None \<Rightarrow> process_results t analysis_results d rest
      | Some (lead, rsn, conf, ltype) \<Rightarrow>
          (let d1 = update_message_lead_status d (m_id db_msg) lead conf rsn t;
               (d2, leads_list, leads_found) = process_results t analysis_results d1 rest
           in if lead
              then (d2, \<lparr>lead_msg = msg, lead_confidence = conf, lead_reason = rsn,
                          lead_type = ltype\<rparr> # leads_list, leads_found + 1)
              else (d2, leads_list, leads_found)))"

text \<open>Step 6: the loop over \<open>chats_to_update\<close>.\<close>

fun update_chat_states :: "time \<Rightarrow> db \<Rightarrow> (int \<times> int) list \<Rightarrow> db" where
  "update_chat_states t d [] = d"
| "update_chat_states t d ((cid, max_msg_id) # rest) =
     update_chat_states t (update_last_message_id d cid max_msg_id t) rest"

subsection \<open>\<open>process_cycle\<close>\<close>

text \<open>
  How a cycle ends: at one of its \<open>return\<close> statements (no chats in the folder, no new
  message, nothing left after filtering, analysis reported as failed), at the end of
  the function, or in the handler of the \<open>try\<close>, which logs the exception and nothing
  else.
\<close>

datatype ending = NoChats | NoMessages | NothingLeft | Aborted | Completed | Raised exn

text \<open>
  What a cycle leaves behind: the database, the calls of \<open>send_stats\<close> in order, and how
  it ended.
\<close>

record cycle =
  db_after :: db
  stats_sent :: "stats list"
  ending :: ending

text \<open>
  \<open>process_cycle\<close> is written in four parts, the later ones first. Steps 5 to 7, after
  an analysis that reported success:
\<close>

definition commit_steps ::
  "env \<Rightarrow> db \<Rightarrow> nat \<Rightarrow> (ParsedMessage \<times> Message \<times> ProcessedUser) list \<Rightarrow> (int \<times> int) list
   \<Rightarrow> verdicts \<Rightarrow> cycle" where
  "commit_steps env d1 total_messages filtered_messages chats_to_update analysis_results =
     (case process_results (clock env) analysis_results d1 (enumerate 0 filtered_messages) of
        (d2, leads_list, leads_found) \<Rightarrow>
          if leads_list \<noteq> []
          then \<lparr>db_after = d2, stats_sent = [],
                ending = Raised (NotificationBot_call_leads ''send_leads_batch'')\<rparr>
          else \<lparr>db_after = update_chat_states (clock env) d2 chats_to_update,
                stats_sent = [(total_messages, length filtered_messages,
                               length filtered_messages, leads_found)],
                ending = Completed\<rparr>)"

text \<open>
  Step 4. The parameters of \<open>analyze_messages_batch\<close> (\<open>src/processing/analyzer.py\<close>,
  lines 167 to 171); the function takes no other keyword.
\<close>

definition analyze_messages_batch_params :: "string list" where
  "analyze_messages_batch_params = [''texts'', ''batch_size'', ''max_parallel'']"

text \<open>
  The call of line 129, \<open>analyze_messages_batch(texts_to_analyze, prompt_type=prompt_type)\<close>:
  a keyword that is no parameter of the function makes the call raise \<open>TypeError\<close>
  before the function runs; were it a parameter, the batches would have their default
  size of 100, three in parallel. An exception of the call ends the cycle in the handler.
  Otherwise the success flag decides between the early \<open>return\<close> and the steps above.
\<close>

definition analysis_step ::
  "env \<Rightarrow> db \<Rightarrow> nat \<Rightarrow> (ParsedMessage \<times> Message \<times> ProcessedUser) list \<Rightarrow> (int \<times> int) list
   \<Rightarrow> cycle" where
  "analysis_step env d1 total_messages filtered_messages chats_to_update =
     (case (if ''prompt_type'' \<in> set analyze_messages_batch_params
            then analyze_messages_batch (decoder env) (provider env)
                   (texts_to_analyze filtered_messages) 100 3
            else Inl TypeError) of
        Inl e \<Rightarrow> \<lparr>db_after = d1, stats_sent = [], ending = Raised e\<rparr>
      | Inr (analysis_results, analysis_success) \<Rightarrow>
          if \<not> analysis_success
          then \<lparr>db_after = d1,
                stats_sent = [(total_messages, length filtered_messages, 0, 0)],
                ending = Aborted\<rparr>
          else commit_steps env d1 total_messages filtered_messages chats_to_update
                 analysis_results)"

text \<open>Step 3: filtering, de-duplication and saving.\<close>

definition filter_step ::
  "env \<Rightarrow> db \<Rightarrow> ParsedMessage list \<Rightarrow> (int \<times> int) list \<Rightarrow> cycle" where
  "filter_step env d all_messages chats_to_update =
     (case save_all (clock env) d
             (deduplicate (filter_messages (exclude_words env) all_messages)) of
        (d1, filtered_messages) \<Rightarrow>
          if filtered_messages = []
          then \<lparr>db_after = d1, stats_sent = [(length all_messages, 0, 0, 0)],
                ending = NothingLeft\<rparr>
          else analysis_step env d1 (length all_messages) filtered_messages chats_to_update)"

text \<open>Steps 1 and 2, and the whole cycle.\<close>

definition process_cycle :: "env \<Rightarrow> db \<Rightarrow> cycle" where
  "process_cycle env d =
     (case folder_chats env of
        Inl e \<Rightarrow> \<lparr>db_after = d, stats_sent = [], ending = Raised e\<rparr>
      | Inr peers \<Rightarrow>
          if peers = [] then \<lparr>db_after = d, stats_sent = [(0, 0, 0, 0)], ending = NoChats\<rparr>
          else
            (case collect env d peers of
               (all_messages, chats_to_update) \<Rightarrow>
                 if all_messages = []
                 then \<lparr>db_after = d, stats_sent = [(0, 0, 0, 0)], ending = NoMessages\<rparr>
                 else filter_step env d all_messages chats_to_update))"

text \<open>
  The items of a cycle that pass the content filter, the ones step 3 saves: none when
  the folder cannot be read.
\<close>

definition cycle_filtered :: "env \<Rightarrow> db \<Rightarrow> ParsedMessage list" where
  "cycle_filtered env d =
     (case folder_chats env of
        Inl e \<Rightarrow> []
      | Inr peers \<Rightarrow> content_filter (exclude_words env) (fst (collect env d peers)))"

subsection \<open>The reset callback\<close>

text \<open>
  \<open>reset_chat_states\<close> of \<open>main\<close>: the result of \<open>repo.reset_telegram_chat_states()\<close> is
  returned as the count; an exception of the call passes through the \<open>finally\<close> to the
  caller. The result is the database afterwards and the count or the exception.
\<close>

definition reset_chat_states :: "db \<Rightarrow> db \<times> (exn + int option)" where
  "reset_chat_states d = (d, Repository_call0 ''reset_telegram_chat_states'')"

section \<open>Concrete inputs for the examples\<close>

text \<open>The response \<open>[{"id": 1}]\<close>: one lead, for index 1.\<close>

definition lead_text :: string where
  "lead_text = ''[{'' @ [CHR 0x22] @ ''id'' @ [CHR 0x22] @ '': 1}]''"

text \<open>
  A decoder for the examples. It answers as \<open>json.loads\<close> does on the texts the examples
  hand to it: \<open>[]\<close>, \<open>5\<close>, the response above, and \<open>oops\<close>, which is no JSON.
\<close>

definition example_loads :: "string \<Rightarrow> exn + json" where
  "example_loads s =
     (if s = ''[]'' then Inr (JArr [])
      else if s = ''5'' then Inr (JInt 5)
      else if s = lead_text then Inr (JArr [JObj [(''id'', JInt 1)]])
      else Inl JSONDecodeError)"

text \<open>A provider that fails on one batch and answers every other one with the same text.\<close>

definition failing_on :: "entry list \<Rightarrow> string \<Rightarrow> entry list \<Rightarrow> nat \<Rightarrow> exn + string" where
  "failing_on bad answer batch attempt =
     (if batch = bad then Inl (Exception ''boom'') else Inr answer)"

definition example_sender :: tg_sender where
  "example_sender = \<lparr>snd_id = 7, snd_username = Some ''ann'', snd_first_name = None\<rparr>"

definition example_message :: "int \<Rightarrow> string \<Rightarrow> time \<Rightarrow> tg_message" where
  "example_message n t d =
     \<lparr>tg_id = n, tg_text = Some t, tg_sender_id = Some 7, tg_sender = Some example_sender,
      tg_date = d, tg_reply_to = None\<rparr>"

text \<open>A message without text, as a photo is.\<close>

definition example_photo :: "int \<Rightarrow> tg_message" where
  "example_photo n =
     \<lparr>tg_id = n, tg_text = None, tg_sender_id = Some 7, tg_sender = Some example_sender,
      tg_date = 0, tg_reply_to = None\<rparr>"

definition example_entity :: entity where
  "example_entity = \<lparr>ent_id = 1, ent_title = Some ''Chat'', ent_username = None, ent_forum = False\<rparr>"

text \<open>
  One monitored chat, channel 1, with the given history; the clock stands at two days,
  there are no exclusion words, and the provider gives the same outcome to every call.
\<close>

definition example_env :: "tg_message list \<Rightarrow> exn + string \<Rightarrow> env" where
  "example_env hist outcome =
     \<lparr>folder_chats = Inr [PeerChannel 1], get_entity = (\<lambda>p. Inr example_entity),
      history = (\<lambda>e. hist), iter_fails_after = (\<lambda>e. None), get_messages = (\<lambda>e n. None),
      clock = 2 * day, exclude_words = [], decoder = example_loads,
      provider = (\<lambda>batch attempt. outcome)\<rparr>"


text \<open>A batch of five entries.\<close>

definition five_entries :: "entry list" where
  "five_entries =
     [(0, None, ''a''), (1, None, ''b''), (2, None, ''c''), (3, None, ''d''), (4, None, ''e'')]"

text \<open>The four items of the filter example: three case variants and one other text.\<close>

definition example_items :: "ParsedMessage list" where
  "example_items =
     [item 1 ''Selling car'' 0, item 2 ''selling car'' 0, item 3 ''Selling CAR'' 0,
      item 4 ''House for rent'' 0]"



text \<open>
  A chat that was never scanned: the newest message, 12, holds an exclusion word,
  message 11 is recent, message 3 is older than 24 hours. The provider finds no lead.
\<close>

definition new_chat_env :: env where
  "new_chat_env =
     (example_env [example_message 12 ''for rent'' (2 * day), example_message 11 ''hello'' (2 * day),
                   example_message 3 ''old'' 5] (Inr ''[]''))\<lparr>exclude_words := [''rent'']\<rparr>"

section \<open>Properties of the watermark store\<close>

lemma get_after_update:
  "get_last_message_id (update_last_message_id d cid mid now) cid' =
     (if cid' = cid then Some mid else get_last_message_id d cid')"
  by (simp add: get_last_message_id_def update_last_message_id_def split: option.splits)

text \<open>
  C3, as stated, fails: advancing chat 1 to 5 and then to 3 leaves the stored watermark
  at 3, not at 5.
\<close>

theorem watermark_regresses:
  "(3::int) < 5 \<and>
   get_last_message_id
     (update_last_message_id (update_last_message_id empty_db 1 5 0) 1 3 0) 1 = Some 3"
  by (simp add: get_last_message_id_def update_last_message_id_def empty_db_def)

text \<open>
  C3, amended: \<open>update_last_message_id\<close> stores the ordinal it is given, whatever the
  stored one is, so after advancing to \<open>n\<close> and then to \<open>m\<close> the watermark is \<open>m\<close>; the
  watermarks of the other chats are untouched; and repeating an advance (at the same clock
  reading) changes nothing.
\<close>

theorem watermark_last_write_wins:
  "get_last_message_id
     (update_last_message_id (update_last_message_id d s n t1) s m t2) s = Some m \<and>
   get_last_message_id (update_last_message_id d s n t1) s = Some n \<and>
   get_last_message_id (update_last_message_id d s n t1) s' =
     (if s' = s then Some n else get_last_message_id d s') \<and>
   update_last_message_id (update_last_message_id d s n t1) s n t1 =
     update_last_message_id d s n t1"
  by (simp add: get_last_message_id_def update_last_message_id_def split: option.splits)

section \<open>Properties of the classification batcher\<close>

lemma upt_0_3: "[0..<3] = [0, 1, 2::nat]" by (simp add: upt_rec)

lemma analyze_batch_first_attempt:
  "batch \<noteq> [] \<Longrightarrow> attempt_once l (p batch 0) = Inr v \<Longrightarrow> analyze_batch l p batch 3 = Inr v"
  by (simp add: analyze_batch_def upt_0_3)

lemma analyze_batch_other_error:
  "batch \<noteq> [] \<Longrightarrow> attempt_once l (p batch 0) = Inl e \<Longrightarrow> \<not> is_rate_limit e
   \<Longrightarrow> analyze_batch l p batch 3 = Inl AnalysisError"
  by (simp add: analyze_batch_def upt_0_3)

lemma boom_no_rate_limit: "\<not> is_rate_limit (Exception ''boom'')"
  by (simp add: is_rate_limit_def lower_def lower_char_def)

lemma results_empty: "results_to_verdicts (JArr []) = Inr Map.empty"
  by (simp add: results_to_verdicts_def)

lemma attempt_once_empty:
  "parse_response l t = Inr (JArr []) \<Longrightarrow> attempt_once l (Inr t) = Inr Map.empty"
  by (simp add: attempt_once_def results_empty)

lemma parse_lead_text: "parse_response example_loads lead_text = Inr (JArr [JObj [(''id'', JInt 1)]])"
  by (simp add: parse_response_def example_loads_def lead_text_def strip_def py_isspace_def
      json_candidate_def split_def rfind_ch_def slice_def)

lemma parse_brackets: "parse_response example_loads ''[]'' = Inr (JArr [])"
  by (simp add: parse_response_def example_loads_def lead_text_def strip_def py_isspace_def
      json_candidate_def split_def rfind_ch_def slice_def)

lemma parse_five: "parse_response example_loads ''5'' = Inr (JInt 5)"
  by (simp add: parse_response_def example_loads_def lead_text_def strip_def py_isspace_def
      json_candidate_def split_def rfind_ch_def slice_def)

lemma parse_oops: "parse_response example_loads ''oops'' = Inr (JArr [])"
  by (simp add: parse_response_def example_loads_def lead_text_def strip_def py_isspace_def
      json_candidate_def split_def rfind_ch_def slice_def)

lemma chunks_step: "n \<noteq> 0 \<Longrightarrow> xs \<noteq> [] \<Longrightarrow> chunks n xs = take n xs # chunks n (drop n xs)"
  by (subst chunks.simps) simp

lemma chunks_Nil: "chunks n [] = []"
  by (subst chunks.simps) simp

lemma flag_always_true:
  "analyze_messages_batch l p texts b m = Inr (v, ok) \<Longrightarrow> ok"
  by (auto simp: analyze_messages_batch_def split: if_splits)

text \<open>
  C1, evaluated where the code departs from it. Two entries in batches of one: the
  provider fails on the first batch, so \<open>analyze_batch\<close> raises \<open>AnalysisError\<close> for
  that chunk, and answers the second with one lead. \<open>analyze_messages_batch\<close> returns the
  verdict of the chunk that succeeded together with the success flag \<open>True\<close>, where the
  claim requires \<open>False\<close>.
\<close>

theorem batcher_reports_success_despite_failed_chunk:
  "analyze_batch example_loads (failing_on [(0, None, ''a'')] lead_text) [(0, None, ''a'')] 3
     = Inl AnalysisError \<and>
   analyze_batch example_loads (failing_on [(0, None, ''a'')] lead_text) [(1, None, ''b'')] 3
     = Inr [1 \<mapsto> (True, JStr [], JFloat (1/2), JStr ''property'')] \<and>
   analyze_messages_batch example_loads (failing_on [(0, None, ''a'')] lead_text)
       [(0, None, ''a''), (1, None, ''b'')] 1 3
     = Inr ([1 \<mapsto> (True, JStr [], JFloat (1/2), JStr ''property'')], True)"
proof -
  let ?p = "failing_on [(0, None, ''a'')] lead_text"
  have a: "analyze_batch example_loads ?p [(0, None, ''a'')] 3 = Inl AnalysisError"
    by (rule analyze_batch_other_error[where e = "Exception ''boom''"])
       (simp_all add: failing_on_def attempt_once_def boom_no_rate_limit)
  have b: "analyze_batch example_loads ?p [(1, None, ''b'')] 3
             = Inr [1 \<mapsto> (True, JStr [], JFloat (1/2), JStr ''property'')]"
    by (rule analyze_batch_first_attempt)
       (simp_all add: failing_on_def attempt_once_def parse_lead_text results_to_verdicts_def)
  have c: "chunks 1 [(0, None, ''a''), (1, None, ''b'')] = [[(0::int, None::int option, ''a'')], [(1, None, ''b'')]]"
    by (simp add: chunks_step chunks_Nil)
  have d: "chunks 3 [[(0::int, None::int option, ''a'')], [(1, None, ''b'')]] = [[[(0, None, ''a'')], [(1, None, ''b'')]]]"
    by (simp add: chunks_step chunks_Nil)
  show ?thesis
    by (simp add: a b analyze_messages_batch_def c d)
qed


lemma process_results_no_verdicts:
  "process_results t Map.empty d0 xs = (d0, [], 0)"
  by (induction xs) auto

lemma build_verdicts_absent:
  "build_verdicts acc rs = Inr v \<Longrightarrow> i \<notin> set (result_indices rs) \<Longrightarrow> v i = acc i"
proof (induction rs arbitrary: acc)
  case Nil
  then show ?case by simp
next
  case (Cons r rs)
  then show ?case
    by (auto simp: result_indices_def List.map_filter_simps split: sum.splits option.splits)
qed

lemma results_to_verdicts_absent:
  "results_to_verdicts (JArr rs) = Inr v \<Longrightarrow> i \<notin> set (result_indices rs) \<Longrightarrow> v i = None"
  using build_verdicts_absent[of Map.empty rs v i]
  by (auto simp: results_to_verdicts_def split: option.splits)

text \<open>
  C6: when the response to a batch decodes to the empty list, \<open>analyze_batch\<close> returns
  normally (a success) with a dictionary that has no entry, and step 5 of the cycle then
  marks no message and collects no lead. More generally, an index that the decoded
  results do not name has no entry in the dictionary, and step 5 passes over an index
  without an entry, so the item is not a lead.
\<close>

theorem empty_result_is_success_without_leads:
  assumes "batch \<noteq> []"
    and "p batch 0 = Inr result_text"
    and "parse_response l result_text = Inr (JArr [])"
  shows "analyze_batch l p batch 3 = Inr Map.empty \<and>
         process_results t Map.empty d0 (enumerate 0 saved) = (d0, [], 0) \<and>
         (\<forall>rs v i. results_to_verdicts (JArr rs) = Inr v \<and> i \<notin> set (result_indices rs)
            \<longrightarrow> v i = None) \<and>
         (\<forall>v i x rest. v (int i) = None
            \<longrightarrow> process_results t v d0 ((i, x) # rest) = process_results t v d0 rest)"
proof -
  have "attempt_once l (p batch 0) = Inr Map.empty"
    using assms(2,3) by (simp add: attempt_once_empty)
  then have "analyze_batch l p batch 3 = Inr Map.empty"
    using assms(1) by (rule analyze_batch_first_attempt[rotated])
  moreover have "\<forall>v i x rest. v (int i) = None
            \<longrightarrow> process_results t v d0 ((i, x) # rest) = process_results t v d0 rest"
    by (auto split: prod.splits)
  ultimately show ?thesis
    by (auto simp: process_results_no_verdicts results_to_verdicts_absent)
qed

text \<open>
  C6 at a batch of five entries answered with \<open>[]\<close>, and, for the general part, at a
  response that names index 1 only: index 0 has no verdict.
\<close>

theorem empty_result_is_success_without_leads_witness:
  "analyze_batch example_loads (\<lambda>batch attempt. Inr ''[]'') five_entries 3 = Inr Map.empty \<and>
   process_results 0 Map.empty empty_db (enumerate 0 []) = (empty_db, [], 0) \<and>
   results_to_verdicts (JArr [JObj [(''id'', JInt 1)]]) = Inr [1 \<mapsto> (True, JStr [], JFloat (1/2), JStr ''property'')] \<and>
   [1 \<mapsto> (True, JStr [], JFloat (1/2), JStr ''property'')] (0::int) = None"
proof -
  have ne: "five_entries \<noteq> []" by (simp add: five_entries_def)
  have r: "results_to_verdicts (JArr [JObj [(''id'', JInt 1)]])
             = Inr [1 \<mapsto> (True, JStr [], JFloat (1/2), JStr ''property'')]"
    by (simp add: results_to_verdicts_def)
  have i: "(0::int) \<notin> set (result_indices [JObj [(''id'', JInt 1)]])"
    by (simp add: result_indices_def List.map_filter_simps)
  from empty_result_is_success_without_leads
         [of five_entries "\<lambda>batch attempt. Inr ''[]''" "''[]''" example_loads 0 empty_db "[]",
          OF ne refl parse_brackets]
  show ?thesis using r i by simp
qed

text \<open>
  C9, as stated, fails: the response \<open>5\<close> holds no JSON array, yet \<open>parse_response\<close>
  returns the integer 5, which is not a list, and \<open>analyze_batch\<close> then raises
  \<open>AnalysisError\<close> instead of reporting a success without leads.
\<close>

theorem parse_response_returns_scalar:
  "parse_response example_loads ''5'' = Inr (JInt 5) \<and>
   find_ch CHR ''['' ''5'' = None \<and>
   analyze_batch example_loads (\<lambda>batch attempt. Inr ''5'') [(0, None, ''a'')] 3
     = Inl AnalysisError"
proof -
  have "analyze_batch example_loads (\<lambda>batch attempt. Inr ''5'') [(0, None, ''a'')] 3
     = Inl AnalysisError"
    by (rule analyze_batch_other_error[where e = TypeError])
       (simp_all add: attempt_once_def parse_five results_to_verdicts_def is_rate_limit_def)
  then show ?thesis by (simp add: parse_five)
qed

text \<open>
  C9, amended: \<open>parse_response\<close> never lets the decoder's \<open>JSONDecodeError\<close> escape.
  It returns the empty list when the response is empty once stripped or when the text it
  hands to the decoder fails to decode; when that text decodes, it returns the decoded
  value as it is. Whenever it returns the empty list, \<open>analyze_batch\<close> returns a
  dictionary without entries, a success of the chunk with no lead.
\<close>

theorem parse_response_catches_decode_errors:
  "parse_response l t \<noteq> Inl JSONDecodeError \<and>
   (strip t = [] \<longrightarrow> parse_response l t = Inr (JArr [])) \<and>
   (l (json_candidate (strip t)) = Inl JSONDecodeError \<longrightarrow> parse_response l t = Inr (JArr [])) \<and>
   (strip t \<noteq> [] \<and> l (json_candidate (strip t)) = Inr v \<longrightarrow> parse_response l t = Inr v) \<and>
   (batch \<noteq> [] \<and> p batch 0 = Inr t \<and> parse_response l t = Inr (JArr [])
      \<longrightarrow> analyze_batch l p batch 3 = Inr Map.empty)"
proof -
  have "batch \<noteq> [] \<and> p batch 0 = Inr t \<and> parse_response l t = Inr (JArr [])
      \<longrightarrow> analyze_batch l p batch 3 = Inr Map.empty"
    by (auto intro!: analyze_batch_first_attempt simp: attempt_once_empty)
  moreover have "parse_response l t \<noteq> Inl JSONDecodeError"
    by (auto simp: parse_response_def Let_def split: sum.splits exn.splits)
  ultimately show ?thesis
    by (auto simp: parse_response_def Let_def split: sum.splits exn.splits)
qed

text \<open>
  C9, amended, at a blank response, at \<open>oops\<close> (which fails to decode) and at \<open>5\<close>
  (which decodes).
\<close>

theorem parse_response_catches_decode_errors_witness:
  "strip ''  '' = [] \<and> parse_response example_loads ''  '' = Inr (JArr []) \<and>
   example_loads (json_candidate (strip ''oops'')) = Inl JSONDecodeError \<and>
   parse_response example_loads ''oops'' = Inr (JArr []) \<and>
   strip ''5'' \<noteq> [] \<and> example_loads (json_candidate (strip ''5'')) = Inr (JInt 5) \<and>
   parse_response example_loads ''5'' = Inr (JInt 5) \<and>
   analyze_batch example_loads (\<lambda>batch attempt. Inr ''oops'') five_entries 3 = Inr Map.empty"
proof -
  have s1: "strip ''  '' = []" by (simp add: strip_def py_isspace_def)
  have s2: "example_loads (json_candidate (strip ''oops'')) = Inl JSONDecodeError"
    by (simp add: example_loads_def lead_text_def strip_def py_isspace_def json_candidate_def
        split_def rfind_ch_def slice_def)
  have s3: "strip ''5'' \<noteq> [] \<and> example_loads (json_candidate (strip ''5'')) = Inr (JInt 5)"
    by (simp add: example_loads_def lead_text_def strip_def py_isspace_def json_candidate_def
        split_def rfind_ch_def slice_def)
  have ne: "five_entries \<noteq> []" by (simp add: five_entries_def)
  note w1 = parse_response_catches_decode_errors[of example_loads "''  ''" JNull "[]" "\<lambda>batch attempt. Inr []"]
  note w2 = parse_response_catches_decode_errors
              [of example_loads "''oops''" undefined five_entries "\<lambda>batch attempt. Inr ''oops''"]
  note w3 = parse_response_catches_decode_errors[of example_loads "''5''" "JInt 5" "[]" "\<lambda>batch attempt. Inr []"]
  show ?thesis using w1 w2 w3 s1 s2 s3 ne by simp
qed

section \<open>Properties of the content filter\<close>

lemma filter_messages_no_words: "filter_messages [] xs = xs"
  by (simp add: filter_messages_def)

lemma dedup_from_subseq: "subseq (dedup_from seen xs) xs"
  by (induction xs arbitrary: seen) auto

lemma dedup_from_texts: "msg_text ` set (dedup_from seen xs) = msg_text ` set xs - seen"
  by (induction xs arbitrary: seen) auto

lemma dedup_from_distinct: "distinct (map msg_text (dedup_from seen xs))"
  by (induction xs arbitrary: seen) (auto simp: dedup_from_texts)

lemma dedup_from_find:
  "find (\<lambda>x. msg_text x = t) (dedup_from seen xs) =
     (if t \<in> seen then None else find (\<lambda>x. msg_text x = t) xs)"
  by (induction xs arbitrary: seen) auto

lemma find_filter: "find P (filter Q xs) = find (\<lambda>x. P x \<and> Q x) xs"
  by (induction xs) auto

text \<open>
  C5, as stated, fails: with no exclusion words the four items of the example all
  survive, in their order, since no two of them have the same text; and texts that
  differ in surrounding white space only are both kept.
\<close>

theorem filter_dedup_keeps_case_variants:
  "map msg_text (content_filter [] example_items) =
     [''Selling car'', ''selling car'', ''Selling CAR'', ''House for rent''] \<and>
   length (content_filter [] example_items) \<noteq> 2 \<and>
   map msg_text (content_filter [] [item 1 ''car'' 0, item 2 ''car '' 0]) = [''car'', ''car '']"
  by (simp add: content_filter_def filter_messages_no_words deduplicate_def example_items_def
      item_def)

text \<open>
  C5, amended: the content filter returns a subsequence of its input (order preserved)
  in which no two items have the same text; the texts that survive are those of the
  items that no exclusion word excludes; and the survivor with a given text is the first
  such item with exactly that text, compared as it is, case and white space included.
  On the example all four items survive.
\<close>

theorem content_filter_exact_text:
  "subseq (content_filter ws xs) xs \<and>
   distinct (map msg_text (content_filter ws xs)) \<and>
   msg_text ` set (content_filter ws xs) =
     msg_text ` {m \<in> set xs. \<not> excluded ws (lower (msg_text m))} \<and>
   find (\<lambda>x. msg_text x = t) (content_filter ws xs) =
     find (\<lambda>x. msg_text x = t \<and> \<not> excluded ws (lower (msg_text x))) xs \<and>
   length (content_filter [] example_items) = 4"
proof -
  have "subseq (content_filter ws xs) (filter_messages ws xs)"
    by (simp add: content_filter_def deduplicate_def dedup_from_subseq)
  moreover have "subseq (filter_messages ws xs) xs"
    by (simp add: filter_messages_def)
  ultimately have "subseq (content_filter ws xs) xs"
    by (rule subseq_order.trans)
  moreover have "length (content_filter [] example_items) = 4"
    by (simp add: content_filter_def filter_messages_no_words deduplicate_def example_items_def
      item_def)
  ultimately show ?thesis
    by (simp add: content_filter_def deduplicate_def dedup_from_distinct dedup_from_texts
        dedup_from_find filter_messages_def find_filter)
qed

lemma excluded_iff: "excluded ws s \<longleftrightarrow> (\<exists>w \<in> set ws. contains w s)"
  by (induction ws) auto

lemma contains_iff: "contains w s \<longleftrightarrow> sublist w s"
  by (induction s) (auto simp: sublist_Cons_right)

section \<open>Properties of the source adapter and of the cycle\<close>













lemma collect_fst: "fst (collect env d0 ps) = concat (map (\<lambda>q. fst (fetch_chat env d0 q)) ps)"
  by (induction ps) (auto split: prod.splits)







lemma get_or_create_user_chat_state:
  "get_or_create_user d0 u n f t = (d1, usr) \<Longrightarrow> chat_state d1 = chat_state d0"
  by (auto simp: get_or_create_user_def Let_def split: option.splits)

lemma save_message_chat_state:
  "save_message d0 m usr = (d1, row) \<Longrightarrow> chat_state d1 = chat_state d0"
  by (auto simp: save_message_def Let_def)

lemma save_all_chat_state: "save_all t d0 xs = (d1, saved) \<Longrightarrow> chat_state d1 = chat_state d0"
proof (induction xs arbitrary: d0 d1 saved)
  case Nil
  then show ?case by simp
next
  case (Cons x xs)
  obtain da usr where a: "get_or_create_user d0 (user_id x) (username x) (first_name x) t = (da, usr)"
    by (cases "get_or_create_user d0 (user_id x) (username x) (first_name x) t") auto
  obtain db row where b: "save_message da x usr = (db, row)"
    by (cases "save_message da x usr") auto
  obtain dc rest where c: "save_all t db xs = (dc, rest)"
    by (cases "save_all t db xs") auto
  from Cons.prems a b c have "d1 = dc" by simp
  moreover have "chat_state dc = chat_state db" using Cons.IH[OF c] .
  moreover have "chat_state db = chat_state da" using save_message_chat_state[OF b] .
  moreover have "chat_state da = chat_state d0" using get_or_create_user_chat_state[OF a] .
  ultimately show ?case by simp
qed



lemma get_last_cong: "chat_state d1 = chat_state d2 \<Longrightarrow> get_last_message_id d1 c = get_last_message_id d2 c"
  by (simp add: get_last_message_id_def)


lemma analysis_step_raises:
  "analysis_step env d1 n fm ups = \<lparr>db_after = d1, stats_sent = [], ending = Raised TypeError\<rparr>"
  by (simp add: analysis_step_def analyze_messages_batch_params_def)

lemma filter_step_cases:
  assumes "save_all (clock env) d0 (deduplicate (filter_messages (exclude_words env) all)) = (d1, fm)"
  shows "filter_step env d0 all ups =
           (if fm = []
            then \<lparr>db_after = d1, stats_sent = [(length all, 0, 0, 0)], ending = NothingLeft\<rparr>
            else \<lparr>db_after = d1, stats_sent = [], ending = Raised TypeError\<rparr>)"
  using assms by (simp add: filter_step_def analysis_step_raises)

lemma get_or_create_user_tables:
  "get_or_create_user d0 u n f t = (d1, usr) \<Longrightarrow>
     messages d1 = messages d0 \<and> facebook_processed_posts d1 = facebook_processed_posts d0"
  by (auto simp: get_or_create_user_def Let_def split: option.splits)

lemma save_message_tables:
  "save_message d0 m usr = (d1, row) \<Longrightarrow>
     messages d1 = messages d0 @ [row] \<and> telegram_message_id row = message_id m \<and>
     m_chat_id row = chat_id m \<and> m_text row = msg_text m \<and> is_lead row = None \<and>
     facebook_processed_posts d1 = facebook_processed_posts d0"
  by (auto simp: save_message_def Let_def)

lemma save_all_rows:
  "save_all t d0 xs = (d1, saved) \<Longrightarrow>
     \<exists>rows. messages d1 = messages d0 @ rows \<and>
       map (\<lambda>r. (telegram_message_id r, m_chat_id r, m_text r, is_lead r)) rows =
         map (\<lambda>m. (message_id m, chat_id m, msg_text m, None)) xs \<and>
       facebook_processed_posts d1 = facebook_processed_posts d0 \<and>
       length saved = length xs"
proof (induction xs arbitrary: d0 d1 saved)
  case Nil
  then show ?case by simp
next
  case (Cons x xs)
  obtain da usr where a: "get_or_create_user d0 (user_id x) (username x) (first_name x) t = (da, usr)"
    by (cases "get_or_create_user d0 (user_id x) (username x) (first_name x) t") auto
  obtain db row where b: "save_message da x usr = (db, row)"
    by (cases "save_message da x usr") auto
  obtain dc rest where c: "save_all t db xs = (dc, rest)"
    by (cases "save_all t db xs") auto
  from Cons.prems a b c have e: "d1 = dc" "saved = (x, row, usr) # rest" by simp_all
  from Cons.IH[OF c] obtain rows where r: "messages dc = messages db @ rows"
    "map (\<lambda>r. (telegram_message_id r, m_chat_id r, m_text r, is_lead r)) rows =
       map (\<lambda>m. (message_id m, chat_id m, msg_text m, None)) xs"
    "facebook_processed_posts dc = facebook_processed_posts db"
    "length rest = length xs"
    by blast
  have "messages d1 = messages d0 @ (row # rows)"
    using e r(1) save_message_tables[OF b] get_or_create_user_tables[OF a] by simp
  moreover have "map (\<lambda>r. (telegram_message_id r, m_chat_id r, m_text r, is_lead r)) (row # rows) =
         map (\<lambda>m. (message_id m, chat_id m, msg_text m, None)) (x # xs)"
    using r(2) save_message_tables[OF b] by simp
  moreover have "facebook_processed_posts d1 = facebook_processed_posts d0"
    using e r(3) save_message_tables[OF b] get_or_create_user_tables[OF a] by simp
  moreover have "length saved = length (x # xs)" using e r(4) by simp
  ultimately show ?case by blast
qed

lemma content_filter_Nil: "content_filter ws [] = []"
  by (simp add: content_filter_def deduplicate_def filter_messages_def)

lemma process_cycle_outcome:
  assumes "save_all (clock env) d0 (cycle_filtered env d0) = (d1, fm)"
  shows "db_after (process_cycle env d0) = d1 \<and>
         (fm \<noteq> [] \<longrightarrow> process_cycle env d0 =
            \<lparr>db_after = d1, stats_sent = [], ending = Raised TypeError\<rparr>) \<and>
         (case ending (process_cycle env d0) of
            Raised e \<Rightarrow> stats_sent (process_cycle env d0) = []
          | NoChats \<Rightarrow> stats_sent (process_cycle env d0) = [(0, 0, 0, 0)]
          | NoMessages \<Rightarrow> stats_sent (process_cycle env d0) = [(0, 0, 0, 0)]
          | NothingLeft \<Rightarrow> length (stats_sent (process_cycle env d0)) = 1
          | Aborted \<Rightarrow> False
          | Completed \<Rightarrow> False)"
proof (cases "folder_chats env")
  case (Inl e)
  then show ?thesis using assms by (simp add: process_cycle_def cycle_filtered_def)
next
  case (Inr ps)
  obtain all ups where c: "collect env d0 ps = (all, ups)"
    by (cases "collect env d0 ps") auto
  have cf: "cycle_filtered env d0 = content_filter (exclude_words env) all"
    using Inr c by (simp add: cycle_filtered_def)
  show ?thesis
  proof (cases "ps = [] \<or> all = []")
    case True
    then have "all = []" using c by auto
    then have "cycle_filtered env d0 = []" using cf by (simp add: content_filter_Nil)
    then have "d1 = d0" "fm = []" using assms by simp_all
    then show ?thesis using Inr c True by (auto simp: process_cycle_def)
  next
    case False
    then have eq: "process_cycle env d0 = filter_step env d0 all ups"
      using Inr c by (simp add: process_cycle_def)
    have s: "save_all (clock env) d0 (deduplicate (filter_messages (exclude_words env) all)) = (d1, fm)"
      using assms cf by (simp add: content_filter_def)
    show ?thesis
      unfolding eq filter_step_cases[OF s] by simp
  qed
qed



text \<open>
  C8, evaluated: the reset callback calls \<open>repo.reset_telegram_chat_states()\<close>, and
  \<open>Repository\<close> has no attribute of that name. Whatever the database holds, the call
  raises \<open>AttributeError\<close>, no count is returned and the database, the stored
  watermarks included, is as before.
\<close>

theorem reset_raises_attribute_error:
  "reset_chat_states d0 = (d0, Inl AttributeError)"
  by (simp add: reset_chat_states_def Repository_call0_def Repository_attrs_def)

lemmas cycle_eval =
  process_cycle_def filter_step_def analysis_step_def analyze_messages_batch_params_def
  commit_steps_def example_env_def example_message_def example_photo_def example_entity_def
  example_sender_def update_last_message_id_def empty_db_def get_last_message_id_def
  fetch_chat_def get_new_messages_def resolve_entity_def iter_messages_def parse_message_def
  List.map_filter_def deduplicate_def filter_messages_def get_or_create_user_def
  save_message_def texts_to_analyze_def enumerate_eq_zip format_text_for_analysis_def
  day_def Let_def

text \<open>
  C2: whatever the provider does, and so in every cycle in which a chunk would fail, a
  cycle leaves every stored watermark and every processed-item record as it found them
  and never runs to the commit of step 6, while the rows saved in step 3 are there
  afterwards: the table of messages is the old one followed by one row, without verdict,
  for each item that passed the content filter, in order.
\<close>

theorem cycle_commits_nothing:
  "chat_state (db_after (process_cycle env d0)) = chat_state d0 \<and>
   facebook_processed_posts (db_after (process_cycle env d0)) = facebook_processed_posts d0 \<and>
   ending (process_cycle env d0) \<noteq> Completed \<and>
   take (length (messages d0)) (messages (db_after (process_cycle env d0))) = messages d0 \<and>
   map (\<lambda>r. (telegram_message_id r, m_chat_id r, m_text r, is_lead r))
       (drop (length (messages d0)) (messages (db_after (process_cycle env d0)))) =
     map (\<lambda>m. (message_id m, chat_id m, msg_text m, None)) (cycle_filtered env d0)"
proof -
  obtain d1 fm where s: "save_all (clock env) d0 (cycle_filtered env d0) = (d1, fm)"
    by (cases "save_all (clock env) d0 (cycle_filtered env d0)") auto
  from process_cycle_outcome[OF s] have d: "db_after (process_cycle env d0) = d1"
    and e: "ending (process_cycle env d0) \<noteq> Completed"
    by (auto split: ending.splits)
  from save_all_rows[OF s] obtain rows where r: "messages d1 = messages d0 @ rows"
    "map (\<lambda>r. (telegram_message_id r, m_chat_id r, m_text r, is_lead r)) rows =
       map (\<lambda>m. (message_id m, chat_id m, msg_text m, None)) (cycle_filtered env d0)"
    "facebook_processed_posts d1 = facebook_processed_posts d0"
    by blast
  show ?thesis
    using save_all_chat_state[OF s] e r by (simp add: d)
qed

text \<open>
  C2 at a cycle whose provider fails: chat 1 has watermark 10 and one new message, 11.
  The cycle ends in the handler without a summary, the watermark is still 10, and the
  row of the message is saved.
\<close>

theorem cycle_commits_nothing_witness:
  "get_last_message_id (update_last_message_id empty_db 1 10 0) 1 = Some 10 \<and>
   map message_id
     (cycle_filtered (example_env [example_message 11 ''hello'' (2 * day)] (Inl (Exception ''boom'')))
        (update_last_message_id empty_db 1 10 0)) = [11] \<and>
   ending (process_cycle
        (example_env [example_message 11 ''hello'' (2 * day)] (Inl (Exception ''boom'')))
        (update_last_message_id empty_db 1 10 0)) = Raised TypeError \<and>
   stats_sent (process_cycle
        (example_env [example_message 11 ''hello'' (2 * day)] (Inl (Exception ''boom'')))
        (update_last_message_id empty_db 1 10 0)) = [] \<and>
   get_last_message_id
     (db_after (process_cycle
        (example_env [example_message 11 ''hello'' (2 * day)] (Inl (Exception ''boom'')))
        (update_last_message_id empty_db 1 10 0))) 1 = Some 10 \<and>
   map m_text (messages (db_after (process_cycle
        (example_env [example_message 11 ''hello'' (2 * day)] (Inl (Exception ''boom'')))
        (update_last_message_id empty_db 1 10 0)))) = [''hello'']"
proof -
  let ?env = "example_env [example_message 11 ''hello'' (2 * day)] (Inl (Exception ''boom''))"
  let ?d = "update_last_message_id empty_db 1 10 0"
  have w: "get_last_message_id ?d 1 = Some 10"
    by (simp add: get_after_update)
  have cf: "map message_id (cycle_filtered ?env ?d) = [11]"
    by (simp add: cycle_filtered_def content_filter_def cycle_eval)
  have ev: "ending (process_cycle ?env ?d) = Raised TypeError \<and>
            stats_sent (process_cycle ?env ?d) = [] \<and>
            map m_text (messages (db_after (process_cycle ?env ?d))) = [''hello'']"
    by (simp add: cycle_eval)
  from cycle_commits_nothing[of ?env ?d]
  have "chat_state (db_after (process_cycle ?env ?d)) = chat_state ?d" by blast
  then have "get_last_message_id (db_after (process_cycle ?env ?d)) 1 = Some 10"
    using w by (simp add: get_last_message_id_def)
  then show ?thesis using w cf ev by simp
qed



text \<open>
  C7, evaluated where the code departs from it. Chat 1 was never scanned; messages 12,
  11 and 3 are fetched, 12 and 11 are from the last 24 hours and go on to the filter, and
  the entry recorded for the chat in \<open>chats_to_update\<close> is 12, the maximum over all
  fetched messages, as the claim says. Message 11 survives the filter, so step 4 is
  reached, where the call of the batcher raises \<open>TypeError\<close>: the cycle ends in the
  handler and the chat still has no watermark, where the claim has it committed.
\<close>

theorem new_source_watermark_not_committed:
  "get_last_message_id empty_db 1 = None \<and>
   map message_id (get_new_messages new_chat_env (PeerChannel 1) (Some 0)) = [12, 11, 3] \<and>
   map message_id (fst (fetch_chat new_chat_env empty_db (PeerChannel 1))) = [12, 11] \<and>
   snd (fetch_chat new_chat_env empty_db (PeerChannel 1)) = [(1, 12)] \<and>
   map message_id (cycle_filtered new_chat_env empty_db) = [11] \<and>
   ending (process_cycle new_chat_env empty_db) = Raised TypeError \<and>
   get_last_message_id (db_after (process_cycle new_chat_env empty_db)) 1 = None"
  by (simp add: new_chat_env_def cycle_filtered_def content_filter_def cycle_eval lower_def
      lower_char_def)








end
